theory Spec2Isabelle
  imports Main "HOL-Library.Word"
begin

unbundle bit_operations_syntax

section \<open>AES integer counter mode over wolfSSL (crypto/cipher/aes\_icm\_wssl.c)\<close>

text \<open>
  A shallow embedding of the five operations of the engine
  (\<open>srtp_aes_icm_wolfssl_alloc\<close>, \<open>_dealloc\<close>, \<open>_context_init\<close>, \<open>_set_iv\<close>,
  \<open>_encrypt\<close>) and of the three descriptors \<open>srtp_aes_icm_128/192/256\<close>.

  Conventions of the embedding:
  \<^item> a byte buffer handed over by pointer is a \<open>byte list\<close>; a length or capacity of
    type \<open>size_t\<close> is a \<open>nat\<close> (the code only compares such values, it never does
    arithmetic on them); the \<open>int\<close> result of a wolfSSL call is an \<open>int\<close>;
    \<open>NULL\<close> is \<open>None\<close>;
  \<^item> a pointer that the code owns exclusively is modelled by the value it points to
    (\<open>c->state\<close>, \<open>icm->ctx\<close>), inside an \<open>option\<close>;
  \<^item> every function returns its status together with the memory it may have written;
  \<^item> the wolfSSL calls are parameters of the model (record \<open>wolfcrypt\<close>), as are the
    results of \<open>srtp_crypto_alloc\<close>;
  \<^item> reading \<open>n\<close> bytes at offset \<open>k\<close> of a buffer is \<open>take n (drop k buf)\<close>; the C code
    requires the buffer to hold these bytes, and the theorems state that requirement as
    a hypothesis.
\<close>

subsection \<open>Types declared in headers\<close>

type_synonym byte = "8 word"

text \<open>The status codes of \<open>err.h\<close> that this file returns.\<close>

datatype srtp_err_status_t =
    srtp_err_status_ok
  | srtp_err_status_fail
  | srtp_err_status_bad_param
  | srtp_err_status_alloc_fail
  | srtp_err_status_init_fail
  | srtp_err_status_cipher_fail
  | srtp_err_status_buffer_small

text \<open>Modelled from the spec: the direction argument of \<open>set_iv\<close>, "encrypt vs decrypt".\<close>

datatype srtp_cipher_direction_t = srtp_direction_encrypt | srtp_direction_decrypt

text \<open>Modelled from the spec: the three algorithm identifiers AES-ICM-128/192/256.\<close>

datatype srtp_cipher_type_id_t = SRTP_AES_ICM_128 | SRTP_AES_ICM_192 | SRTP_AES_ICM_256

text \<open>The address of one of the three descriptors, as stored in \<open>(*c)->type\<close>.\<close>

datatype cipher_type_ref = Ref_srtp_aes_icm_128 | Ref_srtp_aes_icm_192 | Ref_srtp_aes_icm_256

text \<open>
  Modelled from the spec: the lengths. The salt has 112 bits (14 bytes); the AES keys have
  16, 24 and 32 bytes; the combined key+salt lengths are 30, 38 and 46 bytes.
\<close>

definition SRTP_SALT_LEN :: nat where "SRTP_SALT_LEN = 14"
definition SRTP_AES_128_KEY_LEN :: nat where "SRTP_AES_128_KEY_LEN = 16"
definition SRTP_AES_192_KEY_LEN :: nat where "SRTP_AES_192_KEY_LEN = 24"
definition SRTP_AES_256_KEY_LEN :: nat where "SRTP_AES_256_KEY_LEN = 32"
definition SRTP_AES_ICM_128_KEY_LEN_WSALT :: nat where
  "SRTP_AES_ICM_128_KEY_LEN_WSALT = SRTP_SALT_LEN + SRTP_AES_128_KEY_LEN"
definition SRTP_AES_ICM_192_KEY_LEN_WSALT :: nat where
  "SRTP_AES_ICM_192_KEY_LEN_WSALT = SRTP_SALT_LEN + SRTP_AES_192_KEY_LEN"
definition SRTP_AES_ICM_256_KEY_LEN_WSALT :: nat where
  "SRTP_AES_ICM_256_KEY_LEN_WSALT = SRTP_SALT_LEN + SRTP_AES_256_KEY_LEN"

text \<open>
  Modelled from the spec: the engine state \<open>srtp_aes_icm_ctx_t\<close> (IcmEngineState) with its
  fields counter, offset, key, key\_size and the block-cipher context. \<open>counter\<close> and
  \<open>offset\<close> are \<open>v128_t\<close> values, seen through their byte view \<open>v8\<close>; \<open>key\<close> is a
  byte array whose declared size is the length of the list.
\<close>

record 'aes srtp_aes_icm_ctx_t =
  counter :: "byte list"
  offset :: "byte list"
  key :: "byte list"
  key_size :: nat
  ctx :: "'aes option"

text \<open>The fields of \<open>srtp_cipher_t\<close> that this file writes.\<close>

record 'aes srtp_cipher_t =
  type :: cipher_type_ref
  state :: "'aes srtp_aes_icm_ctx_t option"
  key_len :: nat
  algorithm :: srtp_cipher_type_id_t

subsection \<open>The 128-bit block value\<close>

text \<open>Modelled from the spec: \<open>zero()\<close> of Block128, sixteen zero bytes.\<close>

definition v128_set_to_zero :: "byte list" where
  "v128_set_to_zero = replicate 16 0"

text \<open>Modelled from the spec: \<open>copy_from(bytes)\<close> of Block128, the first sixteen bytes.\<close>

definition v128_copy_octet_string :: "byte list \<Rightarrow> byte list" where
  "v128_copy_octet_string s = take 16 s"

text \<open>Modelled from the spec: \<open>xor(a, b)\<close> of Block128, byte by byte.\<close>

definition v128_xor :: "byte list \<Rightarrow> byte list \<Rightarrow> byte list" where
  "v128_xor a b = map2 (XOR) a b"

text \<open>\<open>memcpy(dst, src, n)\<close> into an array \<open>dst\<close>: the first \<open>n\<close> bytes are replaced.\<close>

definition memcpy :: "byte list \<Rightarrow> byte list \<Rightarrow> nat \<Rightarrow> byte list" where
  "memcpy dst src n = take n src @ drop n dst"

subsection \<open>The external primitive and the allocator\<close>

text \<open>
  The four wolfSSL calls of this file. A call receives the context that the handle points
  to (\<open>None\<close> for a null handle, where the code does not check) and returns wolfSSL's
  \<open>int\<close> result with the memory it wrote. \<open>wc_AesSetKey\<close> takes the key, the key size
  and the IV block (the direction is always \<open>AES_ENCRYPTION\<close>); \<open>wc_AesCtrEncrypt\<close>
  takes \<open>dst\<close>, \<open>src\<close> and the length.
\<close>

record 'aes wolfcrypt =
  wc_AesInit :: "'aes \<Rightarrow> int \<times> 'aes"
  wc_AesSetKey :: "'aes option \<Rightarrow> byte list \<Rightarrow> nat \<Rightarrow> byte list \<Rightarrow> int \<times> 'aes option"
  wc_AesCtrEncrypt ::
    "'aes option \<Rightarrow> byte list \<Rightarrow> byte list \<Rightarrow> nat \<Rightarrow> int \<times> 'aes option \<times> byte list"
  wc_AesFree :: "'aes \<Rightarrow> 'aes"

subsection \<open>srtp\_aes\_icm\_wolfssl\_alloc\<close>

text \<open>
  \<open>mem_c\<close> and \<open>mem_icm\<close> are the results of the two calls of \<open>srtp_crypto_alloc\<close>
  (\<open>None\<close> when the allocation fails, otherwise the fresh memory); \<open>c\<close> is the value of
  \<open>*c\<close> before the call, and the second component of the result its value after it.
  The writes through \<open>icm\<close> after \<open>(*c)->state = icm\<close> are visible through
  \<open>(*c)->state\<close>, so the model stores the engine once the \<open>switch\<close> has set its key size.
\<close>

definition srtp_aes_icm_wolfssl_alloc ::
  "'aes srtp_cipher_t option \<Rightarrow> 'aes srtp_aes_icm_ctx_t option \<Rightarrow> 'aes srtp_cipher_t option
    \<Rightarrow> nat \<Rightarrow> nat \<Rightarrow> srtp_err_status_t \<times> 'aes srtp_cipher_t option" where
  "srtp_aes_icm_wolfssl_alloc mem_c mem_icm c key_len' tlen =
    (if key_len' \<noteq> SRTP_AES_ICM_128_KEY_LEN_WSALT \<and>
        key_len' \<noteq> SRTP_AES_ICM_192_KEY_LEN_WSALT \<and>
        key_len' \<noteq> SRTP_AES_ICM_256_KEY_LEN_WSALT
     then (srtp_err_status_bad_param, c)
     else case mem_c of
       None \<Rightarrow> (srtp_err_status_alloc_fail, None)
     | Some c1 \<Rightarrow>
        (case mem_icm of
           None \<Rightarrow> (srtp_err_status_alloc_fail, None)
         | Some icm0 \<Rightarrow>
            let icm = icm0\<lparr>ctx := None\<rparr>;
                c2 =
                  (if key_len' = SRTP_AES_ICM_128_KEY_LEN_WSALT then
                     c1\<lparr>algorithm := SRTP_AES_ICM_128, type := Ref_srtp_aes_icm_128,
                        state := Some (icm\<lparr>key_size := SRTP_AES_128_KEY_LEN\<rparr>)\<rparr>
                   else if key_len' = SRTP_AES_ICM_192_KEY_LEN_WSALT then
                     c1\<lparr>algorithm := SRTP_AES_ICM_192, type := Ref_srtp_aes_icm_192,
                        state := Some (icm\<lparr>key_size := SRTP_AES_192_KEY_LEN\<rparr>)\<rparr>
                   else if key_len' = SRTP_AES_ICM_256_KEY_LEN_WSALT then
                     c1\<lparr>algorithm := SRTP_AES_ICM_256, type := Ref_srtp_aes_icm_256,
                        state := Some (icm\<lparr>key_size := SRTP_AES_256_KEY_LEN\<rparr>)\<rparr>
                   else c1\<lparr>state := Some icm\<rparr>)
            in (srtp_err_status_ok, Some (c2\<lparr>key_len := key_len'\<rparr>))))"

subsection \<open>srtp\_aes\_icm\_wolfssl\_set\_iv\<close>

text \<open>
  The counter is written before wolfSSL is called, so it is part of the result on both
  paths. The direction is cast to \<open>void\<close>.
\<close>

definition srtp_aes_icm_wolfssl_set_iv ::
  "'aes wolfcrypt \<Rightarrow> 'aes srtp_aes_icm_ctx_t \<Rightarrow> byte list \<Rightarrow> srtp_cipher_direction_t
    \<Rightarrow> srtp_err_status_t \<times> 'aes srtp_aes_icm_ctx_t" where
  "srtp_aes_icm_wolfssl_set_iv W c iv dir =
    (let nonce = v128_copy_octet_string iv;
         c1 = c\<lparr>counter := v128_xor (offset c) nonce\<rparr>;
         (err, a) = wc_AesSetKey W (ctx c1) (key c1) (key_size c1) (counter c1);
         c2 = c1\<lparr>ctx := a\<rparr>
     in if err < 0 then (srtp_err_status_fail, c2) else (srtp_err_status_ok, c2))"

subsection \<open>srtp\_aes\_icm\_wolfssl\_context\_init\<close>

text \<open>
  \<open>mem\<close> is the result of \<open>srtp_crypto_alloc(sizeof(Aes))\<close>, which is called only when
  the engine has no context yet. On the two failures of the creation the context is
  left (or set back to) \<open>NULL\<close> and nothing else has been written.
  \<open>sizeof(c->key)\<close> is the length of the list \<open>key c\<close>.
\<close>

definition srtp_aes_icm_wolfssl_context_init ::
  "'aes wolfcrypt \<Rightarrow> 'aes option \<Rightarrow> 'aes srtp_aes_icm_ctx_t \<Rightarrow> byte list
    \<Rightarrow> srtp_err_status_t \<times> 'aes srtp_aes_icm_ctx_t" where
  "srtp_aes_icm_wolfssl_context_init W mem c kbuf =
    (case
       (case ctx c of
          Some a \<Rightarrow> Inr c
        | None \<Rightarrow>
           (case mem of
              None \<Rightarrow> Inl srtp_err_status_alloc_fail
            | Some m \<Rightarrow>
               (let (err, a) = wc_AesInit W m
                in if err < 0 then Inl srtp_err_status_init_fail
                   else Inr (c\<lparr>ctx := Some a\<rparr>))))
     of
       Inl e \<Rightarrow> (e, c\<lparr>ctx := None\<rparr>)
     | Inr c0 \<Rightarrow>
        (let c1 = c0\<lparr>counter := v128_set_to_zero\<rparr>;
             c2 = c1\<lparr>offset := v128_set_to_zero\<rparr>;
             c3 = c2\<lparr>counter := memcpy (counter c2) (drop (key_size c2) kbuf) SRTP_SALT_LEN\<rparr>;
             c4 = c3\<lparr>offset := memcpy (offset c3) (drop (key_size c3) kbuf) SRTP_SALT_LEN\<rparr>;
             c5 = c4\<lparr>offset := (offset c4)[SRTP_SALT_LEN + 1 := 0, SRTP_SALT_LEN := 0]\<rparr>;
             c6 = c5\<lparr>counter := (counter c5)[SRTP_SALT_LEN + 1 := 0, SRTP_SALT_LEN := 0]\<rparr>
         in if key_size c6 \<noteq> SRTP_AES_256_KEY_LEN \<and> key_size c6 \<noteq> SRTP_AES_192_KEY_LEN \<and>
               key_size c6 \<noteq> SRTP_AES_128_KEY_LEN
            then (srtp_err_status_bad_param, c6)
            else if key_size c6 > length (key c6) then (srtp_err_status_bad_param, c6)
            else (srtp_err_status_ok, c6\<lparr>key := memcpy (key c6) kbuf (key_size c6)\<rparr>)))"

subsection \<open>srtp\_aes\_icm\_wolfssl\_encrypt\<close>

text \<open>
  \<open>dst_len\<close> is the pointer argument: \<open>None\<close> for \<open>NULL\<close>, otherwise the capacity
  stored behind it. The result holds the status, the engine, \<open>dst\<close> and \<open>*dst_len\<close>
  after the call.
\<close>

definition srtp_aes_icm_wolfssl_encrypt ::
  "'aes wolfcrypt \<Rightarrow> 'aes srtp_aes_icm_ctx_t \<Rightarrow> byte list \<Rightarrow> nat \<Rightarrow> byte list \<Rightarrow> nat option
    \<Rightarrow> srtp_err_status_t \<times> 'aes srtp_aes_icm_ctx_t \<times> byte list \<times> nat option" where
  "srtp_aes_icm_wolfssl_encrypt W c src src_len dst dst_len =
    (case dst_len of
       None \<Rightarrow> (srtp_err_status_bad_param, c, dst, None)
     | Some cap \<Rightarrow>
        if cap < src_len then (srtp_err_status_buffer_small, c, dst, Some cap)
        else
          (let (err, a, dst') = wc_AesCtrEncrypt W (ctx c) dst src src_len;
               c1 = c\<lparr>ctx := a\<rparr>
           in if err < 0 then (srtp_err_status_cipher_fail, c1, dst', Some cap)
              else (srtp_err_status_ok, c1, dst', Some src_len)))"

subsection \<open>srtp\_aes\_icm\_wolfssl\_dealloc\<close>

text \<open>
  Modelled from the spec: \<open>octet_string_set_to_zero\<close> over the whole engine state,
  "overwrites the entire state (key, offset, counter, key\_size) with zero bytes". Every
  byte of the structure becomes zero, the context pointer included; sizes do not change.
\<close>

definition octet_string_set_to_zero :: "'aes srtp_aes_icm_ctx_t \<Rightarrow> 'aes srtp_aes_icm_ctx_t" where
  "octet_string_set_to_zero s =
     \<lparr>counter = replicate (length (counter s)) 0,
      offset = replicate (length (offset s)) 0,
      key = replicate (length (key s)) 0,
      key_size = 0,
      ctx = None\<rparr>"

text \<open>
  What \<open>srtp_crypto_free\<close> receives, with the contents of the block at the moment it is
  released. The cipher block is released as it is and carries no payload here.
\<close>

datatype 'aes released =
    Released_Aes 'aes
  | Released_icm "'aes srtp_aes_icm_ctx_t"
  | Released_cipher

text \<open>The result holds the status and the calls of \<open>srtp_crypto_free\<close>, in order.\<close>

definition srtp_aes_icm_wolfssl_dealloc ::
  "'aes wolfcrypt \<Rightarrow> 'aes srtp_cipher_t option \<Rightarrow> srtp_err_status_t \<times> 'aes released list" where
  "srtp_aes_icm_wolfssl_dealloc W c =
    (case c of
       None \<Rightarrow> (srtp_err_status_bad_param, [])
     | Some c' \<Rightarrow>
        (srtp_err_status_ok,
         (case state c' of
            None \<Rightarrow> []
          | Some s \<Rightarrow>
             (case ctx s of
                None \<Rightarrow> []
              | Some a \<Rightarrow> [Released_Aes (wc_AesFree W a)])
             @ [Released_icm (octet_string_set_to_zero s)])
         @ [Released_cipher]))"

subsection \<open>The descriptors\<close>

text \<open>
  The function table \<open>srtp_cipher_type_t\<close>. The self-test vector is declared in another
  file and is referred to by name; \<open>set_aad\<close> is the null pointer in all three tables.
\<close>

record 'aes srtp_cipher_type_t =
  alloc ::
    "'aes srtp_cipher_t option \<Rightarrow> 'aes srtp_aes_icm_ctx_t option \<Rightarrow> 'aes srtp_cipher_t option
      \<Rightarrow> nat \<Rightarrow> nat \<Rightarrow> srtp_err_status_t \<times> 'aes srtp_cipher_t option"
  dealloc :: "'aes srtp_cipher_t option \<Rightarrow> srtp_err_status_t \<times> 'aes released list"
  init ::
    "'aes option \<Rightarrow> 'aes srtp_aes_icm_ctx_t \<Rightarrow> byte list
      \<Rightarrow> srtp_err_status_t \<times> 'aes srtp_aes_icm_ctx_t"
  set_aad :: "unit option"
  encrypt ::
    "'aes srtp_aes_icm_ctx_t \<Rightarrow> byte list \<Rightarrow> nat \<Rightarrow> byte list \<Rightarrow> nat option
      \<Rightarrow> srtp_err_status_t \<times> 'aes srtp_aes_icm_ctx_t \<times> byte list \<times> nat option"
  decrypt ::
    "'aes srtp_aes_icm_ctx_t \<Rightarrow> byte list \<Rightarrow> nat \<Rightarrow> byte list \<Rightarrow> nat option
      \<Rightarrow> srtp_err_status_t \<times> 'aes srtp_aes_icm_ctx_t \<times> byte list \<times> nat option"
  set_iv ::
    "'aes srtp_aes_icm_ctx_t \<Rightarrow> byte list \<Rightarrow> srtp_cipher_direction_t
      \<Rightarrow> srtp_err_status_t \<times> 'aes srtp_aes_icm_ctx_t"
  description :: string
  test_data :: string
  cipher_id :: srtp_cipher_type_id_t

definition srtp_aes_icm_128 :: "'aes wolfcrypt \<Rightarrow> 'aes srtp_cipher_type_t" where
  "srtp_aes_icm_128 W =
    \<lparr>alloc = srtp_aes_icm_wolfssl_alloc,
     dealloc = srtp_aes_icm_wolfssl_dealloc W,
     init = srtp_aes_icm_wolfssl_context_init W,
     set_aad = None,
     encrypt = srtp_aes_icm_wolfssl_encrypt W,
     decrypt = srtp_aes_icm_wolfssl_encrypt W,
     set_iv = srtp_aes_icm_wolfssl_set_iv W,
     description = ''AES-128 counter mode using wolfSSL'',
     test_data = ''srtp_aes_icm_128_test_case_0'',
     cipher_id = SRTP_AES_ICM_128\<rparr>"

definition srtp_aes_icm_192 :: "'aes wolfcrypt \<Rightarrow> 'aes srtp_cipher_type_t" where
  "srtp_aes_icm_192 W =
    \<lparr>alloc = srtp_aes_icm_wolfssl_alloc,
     dealloc = srtp_aes_icm_wolfssl_dealloc W,
     init = srtp_aes_icm_wolfssl_context_init W,
     set_aad = None,
     encrypt = srtp_aes_icm_wolfssl_encrypt W,
     decrypt = srtp_aes_icm_wolfssl_encrypt W,
     set_iv = srtp_aes_icm_wolfssl_set_iv W,
     description = ''AES-192 counter mode using wolfSSL'',
     test_data = ''srtp_aes_icm_192_test_case_0'',
     cipher_id = SRTP_AES_ICM_192\<rparr>"

definition srtp_aes_icm_256 :: "'aes wolfcrypt \<Rightarrow> 'aes srtp_cipher_type_t" where
  "srtp_aes_icm_256 W =
    \<lparr>alloc = srtp_aes_icm_wolfssl_alloc,
     dealloc = srtp_aes_icm_wolfssl_dealloc W,
     init = srtp_aes_icm_wolfssl_context_init W,
     set_aad = None,
     encrypt = srtp_aes_icm_wolfssl_encrypt W,
     decrypt = srtp_aes_icm_wolfssl_encrypt W,
     set_iv = srtp_aes_icm_wolfssl_set_iv W,
     description = ''AES-256 counter mode using wolfSSL'',
     test_data = ''srtp_aes_icm_256_test_case_0'',
     cipher_id = SRTP_AES_ICM_256\<rparr>"

text \<open>The descriptor behind a stored address.\<close>

fun deref_type :: "'aes wolfcrypt \<Rightarrow> cipher_type_ref \<Rightarrow> 'aes srtp_cipher_type_t" where
  "deref_type W Ref_srtp_aes_icm_128 = srtp_aes_icm_128 W"
| "deref_type W Ref_srtp_aes_icm_192 = srtp_aes_icm_192 W"
| "deref_type W Ref_srtp_aes_icm_256 = srtp_aes_icm_256 W"

subsection \<open>The external counter-mode primitive, after its contract\<close>

text \<open>
  Modelled from the spec: the handle of the external block-cipher primitive. It holds what
  \<open>set_key_and_iv\<close> programmed, the raw key and the 128-bit starting counter block, and
  the number of keystream bytes already produced since then.
\<close>

record Aes =
  aes_key :: "byte list"
  aes_iv :: "128 word"
  aes_used :: nat

text \<open>
  Modelled from the spec: a 16-byte block read as a big-endian integer ("byte order is
  always big-endian when interpreting the block as an integer counter"), and byte \<open>i\<close>
  of a block, most significant first.
\<close>

definition block_of_bytes :: "byte list \<Rightarrow> 128 word" where
  "block_of_bytes bs = foldl (\<lambda>a b. push_bit 8 a OR ucast b) 0 (take 16 bs)"

definition block_byte :: "128 word \<Rightarrow> nat \<Rightarrow> byte" where
  "block_byte w i = ucast (drop_bit (8 * (15 - i)) w)"

text \<open>
  Modelled from the spec: the keystream, "E(k, IV) || E(k, IV + 1 mod 2^128) ||
  E(k, IV + 2 mod 2^128) ...", bytes \<open>pos\<close> to \<open>pos + n - 1\<close> of it. The block cipher \<open>E\<close>
  itself is out of scope and a parameter.
\<close>

definition keystream ::
  "(byte list \<Rightarrow> 128 word \<Rightarrow> 128 word) \<Rightarrow> byte list \<Rightarrow> 128 word \<Rightarrow> nat \<Rightarrow> nat \<Rightarrow> byte list" where
  "keystream E k iv pos n =
     map (\<lambda>i. block_byte (E k (iv + of_nat (i div 16))) (i mod 16)) [pos..<pos + n]"

text \<open>Modelled from the spec: \<open>create_context() -> Handle|Error\<close>; the blank handle.\<close>

definition create_context :: "Aes \<Rightarrow> int \<times> Aes" where
  "create_context m = (0, \<lparr>aes_key = [], aes_iv = 0, aes_used = 0\<rparr>)"

text \<open>Modelled from the spec: \<open>destroy_context(Handle)\<close>.\<close>

definition destroy_context :: "Aes \<Rightarrow> Aes" where
  "destroy_context a = \<lparr>aes_key = [], aes_iv = 0, aes_used = 0\<rparr>"

text \<open>
  Modelled from the spec: \<open>set_key_and_iv(Handle, key_bytes, key_size, iv_block,
  mode=ENCRYPT) -> Ok|Error\<close>, "given a raw key of size 128/192/256 bits and a 128-bit
  starting counter block". A null handle or another key size is rejected.
\<close>

definition set_key_and_iv ::
  "Aes option \<Rightarrow> byte list \<Rightarrow> nat \<Rightarrow> byte list \<Rightarrow> int \<times> Aes option" where
  "set_key_and_iv h k n iv =
    (case h of
       None \<Rightarrow> (- 1, None)
     | Some a \<Rightarrow>
        if n = 16 \<or> n = 24 \<or> n = 32
        then (0, Some \<lparr>aes_key = take n k, aes_iv = block_of_bytes iv, aes_used = 0\<rparr>)
        else (- 1, Some a))"

text \<open>
  Modelled from the spec: \<open>counter_mode_transform(Handle, dst, src, len) -> Ok|Error\<close>,
  the keystream "combined with plaintext/ciphertext via exclusive-or"; the first \<open>len\<close>
  bytes of \<open>dst\<close> are written. A null handle is rejected.
\<close>

definition counter_mode_transform ::
  "(byte list \<Rightarrow> 128 word \<Rightarrow> 128 word) \<Rightarrow> Aes option \<Rightarrow> byte list \<Rightarrow> byte list \<Rightarrow> nat
    \<Rightarrow> int \<times> Aes option \<times> byte list" where
  "counter_mode_transform E h dst src len =
    (case h of
       None \<Rightarrow> (- 1, None, dst)
     | Some a \<Rightarrow>
        (0, Some (a\<lparr>aes_used := aes_used a + len\<rparr>),
         memcpy dst (map2 (XOR) (take len src) (keystream E (aes_key a) (aes_iv a) (aes_used a) len))
           len))"

text \<open>
  Modelled from the spec: the external block-cipher primitive as a whole, the four
  operations above standing for \<open>wc_AesInit\<close>, \<open>wc_AesSetKey\<close>, \<open>wc_AesCtrEncrypt\<close> and
  \<open>wc_AesFree\<close>.
\<close>

definition wolfcrypt_ctr :: "(byte list \<Rightarrow> 128 word \<Rightarrow> 128 word) \<Rightarrow> Aes wolfcrypt" where
  "wolfcrypt_ctr E =
    \<lparr>wc_AesInit = create_context,
     wc_AesSetKey = set_key_and_iv,
     wc_AesCtrEncrypt = counter_mode_transform E,
     wc_AesFree = destroy_context\<rparr>"

section \<open>Helper lemmas\<close>

lemmas srtp_len_defs =
  SRTP_SALT_LEN_def SRTP_AES_128_KEY_LEN_def SRTP_AES_192_KEY_LEN_def
  SRTP_AES_256_KEY_LEN_def SRTP_AES_ICM_128_KEY_LEN_WSALT_def
  SRTP_AES_ICM_192_KEY_LEN_WSALT_def SRTP_AES_ICM_256_KEY_LEN_WSALT_def

lemma salt_block:
  assumes "k + 14 \<le> length kbuf"
  shows "(memcpy v128_set_to_zero (drop k kbuf) SRTP_SALT_LEN)
           [SRTP_SALT_LEN + 1 := 0, SRTP_SALT_LEN := 0]
         = take 14 (drop k kbuf) @ [0, 0]"
  using assms
  by (simp add: memcpy_def v128_set_to_zero_def SRTP_SALT_LEN_def list_update_append
      numeral_eq_Suc)

lemma context_init_ok_fields:
  assumes "srtp_aes_icm_wolfssl_context_init W mem c kbuf = (srtp_err_status_ok, c')"
  shows "offset c' = (memcpy v128_set_to_zero (drop (key_size c) kbuf) SRTP_SALT_LEN)
                       [SRTP_SALT_LEN + 1 := 0, SRTP_SALT_LEN := 0]"
    and "counter c' = (memcpy v128_set_to_zero (drop (key_size c) kbuf) SRTP_SALT_LEN)
                        [SRTP_SALT_LEN + 1 := 0, SRTP_SALT_LEN := 0]"
    and "key_size c' = key_size c"
  using assms
  by (auto simp: srtp_aes_icm_wolfssl_context_init_def Let_def
      split: option.splits sum.splits prod.splits if_splits)

lemma context_init_bad_param_fields:
  assumes "srtp_aes_icm_wolfssl_context_init W mem c kbuf = (srtp_err_status_bad_param, c')"
  shows "offset c' = (memcpy v128_set_to_zero (drop (key_size c) kbuf) SRTP_SALT_LEN)
                       [SRTP_SALT_LEN + 1 := 0, SRTP_SALT_LEN := 0]"
    and "counter c' = (memcpy v128_set_to_zero (drop (key_size c) kbuf) SRTP_SALT_LEN)
                        [SRTP_SALT_LEN + 1 := 0, SRTP_SALT_LEN := 0]"
    and "key_size c' = key_size c"
    and "key c' = key c"
  using assms
  by (auto simp: srtp_aes_icm_wolfssl_context_init_def Let_def
      split: option.splits sum.splits prod.splits if_splits)

lemma context_init_bad_key_size_status:
  assumes "key_size c \<notin> {16, 24, 32}"
      and "ctx c \<noteq> None \<or> (\<exists>m. mem = Some m \<and> 0 \<le> fst (wc_AesInit W m))"
  shows "fst (srtp_aes_icm_wolfssl_context_init W mem c kbuf) = srtp_err_status_bad_param"
  using assms
  by (auto simp: srtp_aes_icm_wolfssl_context_init_def Let_def srtp_len_defs
      split: option.splits sum.splits prod.splits)

lemma encrypt_ok_iff:
  "srtp_aes_icm_wolfssl_encrypt W c src src_len dst (Some cap) = (srtp_err_status_ok, c', dst', dl')
    \<longleftrightarrow> src_len \<le> cap \<and> dl' = Some src_len \<and>
        (\<exists>err a. wc_AesCtrEncrypt W (ctx c) dst src src_len = (err, a, dst') \<and> 0 \<le> err \<and>
                 c' = c\<lparr>ctx := a\<rparr>)"
  by (auto simp: srtp_aes_icm_wolfssl_encrypt_def Let_def split: prod.splits)

text \<open>Combining twice with the same keystream gives the bytes back.\<close>

lemma xor_twice:
  "length xs \<le> length ks \<Longrightarrow> map2 (XOR) (map2 (XOR) xs ks) ks = (xs :: byte list)"
proof (induction xs arbitrary: ks)
  case Nil
  then show ?case by simp
next
  case (Cons x xs)
  then obtain k ks' where "ks = k # ks'" by (cases ks) auto
  with Cons show ?case by (simp add: xor.assoc)
qed

text \<open>The four steps of a packet, evaluated on the counter-mode primitive.\<close>

lemma alloc_valid:
  assumes "key_len' \<in> {30, 38, 46}"
  shows "\<exists>c1. srtp_aes_icm_wolfssl_alloc (Some m_c) (Some m_icm) c key_len' tlen
               = (srtp_err_status_ok, Some c1)
            \<and> state c1 = Some (m_icm\<lparr>key_size := key_len' - 14, ctx := None\<rparr>)"
  using assms
  by (auto simp: srtp_aes_icm_wolfssl_alloc_def srtp_len_defs Let_def)

lemma context_init_ctr:
  assumes "key_size s \<in> {16, 24, 32}" and "key_size s \<le> length (key s)" and "ctx s = None"
  shows "srtp_aes_icm_wolfssl_context_init (wolfcrypt_ctr E) (Some m) s kbuf =
          (srtp_err_status_ok,
           s\<lparr>counter := (memcpy v128_set_to_zero (drop (key_size s) kbuf) SRTP_SALT_LEN)
                          [SRTP_SALT_LEN + 1 := 0, SRTP_SALT_LEN := 0],
             offset := (memcpy v128_set_to_zero (drop (key_size s) kbuf) SRTP_SALT_LEN)
                          [SRTP_SALT_LEN + 1 := 0, SRTP_SALT_LEN := 0],
             key := memcpy (key s) kbuf (key_size s),
             ctx := Some \<lparr>aes_key = [], aes_iv = 0, aes_used = 0\<rparr>\<rparr>)"
  using assms
  by (auto simp: srtp_aes_icm_wolfssl_context_init_def wolfcrypt_ctr_def create_context_def
      Let_def srtp_len_defs)

lemma set_iv_ctr:
  assumes "key_size s \<in> {16, 24, 32}" and "ctx s = Some a"
  shows "srtp_aes_icm_wolfssl_set_iv (wolfcrypt_ctr E) s iv dir =
          (srtp_err_status_ok,
           s\<lparr>counter := v128_xor (offset s) (v128_copy_octet_string iv),
             ctx := Some \<lparr>aes_key = take (key_size s) (key s),
                          aes_iv = block_of_bytes (v128_xor (offset s) (v128_copy_octet_string iv)),
                          aes_used = 0\<rparr>\<rparr>)"
  using assms
  by (auto simp: srtp_aes_icm_wolfssl_set_iv_def wolfcrypt_ctr_def set_key_and_iv_def Let_def)

lemma encrypt_ctr:
  assumes "src_len \<le> cap" and "ctx s = Some a"
  shows "srtp_aes_icm_wolfssl_encrypt (wolfcrypt_ctr E) s src src_len dst (Some cap) =
          (srtp_err_status_ok,
           s\<lparr>ctx := Some (a\<lparr>aes_used := aes_used a + src_len\<rparr>)\<rparr>,
           memcpy dst (map2 (XOR) (take src_len src)
                        (keystream E (aes_key a) (aes_iv a) (aes_used a) src_len)) src_len,
           Some src_len)"
  using assms
  by (simp add: srtp_aes_icm_wolfssl_encrypt_def wolfcrypt_ctr_def counter_mode_transform_def)

lemma take_memcpy_key: "n \<le> length kbuf \<Longrightarrow> take n (memcpy k kbuf n) = take n kbuf"
  by (simp add: memcpy_def)

lemma take_memcpy_xor:
  assumes "n \<le> length src" and "length ks = n"
  shows "take n (memcpy dst (map2 (XOR) (take n src) ks) n) = map2 (XOR) (take n src) ks"
  using assms by (simp add: memcpy_def)

section \<open>The claims\<close>

text \<open>
  C1. For every call of \<open>set_iv\<close> on an initialized engine (its offset is a 16-byte block)
  with a 16-byte nonce and either direction, the counter after the call is the byte-wise
  exclusive-or of the offset with the nonce: as a list, and byte by byte for the sixteen
  positions. This holds whatever wolfSSL answers, and the whole result of the call is the
  same for the two directions.
\<close>

theorem set_iv_counter_is_offset_xor_nonce:
  assumes "length iv = 16" and "length (offset c) = 16"
  shows "counter (snd (srtp_aes_icm_wolfssl_set_iv W c iv dir)) = map2 (XOR) (offset c) iv
       \<and> length (counter (snd (srtp_aes_icm_wolfssl_set_iv W c iv dir))) = 16
       \<and> (\<forall>i<16. counter (snd (srtp_aes_icm_wolfssl_set_iv W c iv dir)) ! i
                    = offset c ! i XOR iv ! i)
       \<and> srtp_aes_icm_wolfssl_set_iv W c iv srtp_direction_encrypt
          = srtp_aes_icm_wolfssl_set_iv W c iv srtp_direction_decrypt"
  using assms
  by (simp add: srtp_aes_icm_wolfssl_set_iv_def v128_copy_octet_string_def v128_xor_def
      Let_def split: prod.splits)

theorem set_iv_counter_is_offset_xor_nonce_witness:
  "length ([255, 255, 255, 255, 255, 255, 255, 255, 255, 255, 255, 255, 255, 255, 255, 255] :: byte list) = 16
   \<and> counter (snd (srtp_aes_icm_wolfssl_set_iv (wolfcrypt_ctr ((+) \<circ> block_of_bytes))
        \<lparr>counter = [0, 0, 0, 0, 0, 0, 0, 0, 0, 0, 0, 0, 0, 0, 0, 0], offset = [1, 2, 3, 4, 5, 6, 7, 8, 9, 10, 11, 12, 13, 14, 0, 0], key = [0, 0, 0, 0, 0, 0, 0, 0, 0, 0, 0, 0, 0, 0, 0, 0, 0, 0, 0, 0, 0, 0, 0, 0, 0, 0, 0, 0, 0, 0, 0, 0], key_size = 16, ctx = Some \<lparr>aes_key = [], aes_iv = 0, aes_used = 0\<rparr>\<rparr>
        [255, 255, 255, 255, 255, 255, 255, 255, 255, 255, 255, 255, 255, 255, 255, 255] srtp_direction_decrypt))
      = [254, 253, 252, 251, 250, 249, 248, 247, 246, 245, 244, 243, 242, 241, 255, 255]"
proof -
  have n: "length ([255, 255, 255, 255, 255, 255, 255, 255, 255, 255, 255, 255, 255, 255, 255, 255] :: byte list) = 16"
    by simp
  have b: "length (offset (\<lparr>counter = [0, 0, 0, 0, 0, 0, 0, 0, 0, 0, 0, 0, 0, 0, 0, 0], offset = [1, 2, 3, 4, 5, 6, 7, 8, 9, 10, 11, 12, 13, 14, 0, 0], key = [0, 0, 0, 0, 0, 0, 0, 0, 0, 0, 0, 0, 0, 0, 0, 0, 0, 0, 0, 0, 0, 0, 0, 0, 0, 0, 0, 0, 0, 0, 0, 0], key_size = 16, ctx = Some \<lparr>aes_key = [], aes_iv = 0, aes_used = 0\<rparr>\<rparr> :: Aes srtp_aes_icm_ctx_t)) = 16"
    by simp
  from set_iv_counter_is_offset_xor_nonce [OF n b, of "wolfcrypt_ctr ((+) \<circ> block_of_bytes)" srtp_direction_decrypt]
  show ?thesis by simp
qed

text \<open>
  C2. Whenever \<open>initialize\<close> returns ok on a key buffer that holds the \<open>key_size + 14\<close>
  bytes the function reads, the offset and the counter are both the 14 salt bytes found
  at position \<open>key_size\<close> of the buffer followed by two zero bytes: bytes 0 to 13 are
  the salt bytes, bytes 14 and 15 are zero, whatever the salt is.
\<close>

theorem context_init_offset_is_padded_salt:
  assumes "srtp_aes_icm_wolfssl_context_init W mem c kbuf = (srtp_err_status_ok, c')"
      and "key_size c + 14 \<le> length kbuf"
  shows "offset c' = take 14 (drop (key_size c) kbuf) @ [0, 0]
       \<and> counter c' = take 14 (drop (key_size c) kbuf) @ [0, 0]
       \<and> (\<forall>i<14. offset c' ! i = kbuf ! (key_size c + i)
                  \<and> counter c' ! i = kbuf ! (key_size c + i))
       \<and> offset c' ! 14 = 0 \<and> offset c' ! 15 = 0
       \<and> counter c' ! 14 = 0 \<and> counter c' ! 15 = 0
       \<and> length (offset c') = 16 \<and> length (counter c') = 16"
proof -
  let ?salt = "take 14 (drop (key_size c) kbuf)"
  have len: "length ?salt = 14" using assms(2) by simp
  have o: "offset c' = ?salt @ [0, 0]"
    using context_init_ok_fields(1)[OF assms(1)] salt_block[OF assms(2)] by simp
  have k: "counter c' = ?salt @ [0, 0]"
    using context_init_ok_fields(2)[OF assms(1)] salt_block[OF assms(2)] by simp
  have n: "\<And>i. i < 14 \<Longrightarrow> (?salt @ [0, 0]) ! i = kbuf ! (key_size c + i)"
    using len assms(2) by (simp add: nth_append)
  have z: "(?salt @ [0, 0]) ! 14 = 0" "(?salt @ [0, 0]) ! 15 = 0"
    using len by (simp_all add: nth_append)
  show ?thesis using o k n z len by simp
qed

theorem context_init_offset_is_padded_salt_witness:
  "fst (srtp_aes_icm_wolfssl_context_init (wolfcrypt_ctr ((+) \<circ> block_of_bytes)) (Some \<lparr>aes_key = [], aes_iv = 0, aes_used = 0\<rparr>)
         \<lparr>counter = [0, 0, 0, 0, 0, 0, 0, 0, 0, 0, 0, 0, 0, 0, 0, 0], offset = [0, 0, 0, 0, 0, 0, 0, 0, 0, 0, 0, 0, 0, 0, 0, 0], key = [0, 0, 0, 0, 0, 0, 0, 0, 0, 0, 0, 0, 0, 0, 0, 0, 0, 0, 0, 0, 0, 0, 0, 0, 0, 0, 0, 0, 0, 0, 0, 0], key_size = 16, ctx = None\<rparr>
         [16, 17, 18, 19, 20, 21, 22, 23, 24, 25, 26, 27, 28, 29, 30, 31, 101, 102, 103, 104, 105, 106, 107, 108, 109, 110, 111, 112, 113, 114]) = srtp_err_status_ok
   \<and> offset (snd (srtp_aes_icm_wolfssl_context_init (wolfcrypt_ctr ((+) \<circ> block_of_bytes)) (Some \<lparr>aes_key = [], aes_iv = 0, aes_used = 0\<rparr>)
         \<lparr>counter = [0, 0, 0, 0, 0, 0, 0, 0, 0, 0, 0, 0, 0, 0, 0, 0], offset = [0, 0, 0, 0, 0, 0, 0, 0, 0, 0, 0, 0, 0, 0, 0, 0], key = [0, 0, 0, 0, 0, 0, 0, 0, 0, 0, 0, 0, 0, 0, 0, 0, 0, 0, 0, 0, 0, 0, 0, 0, 0, 0, 0, 0, 0, 0, 0, 0], key_size = 16, ctx = None\<rparr>
         [16, 17, 18, 19, 20, 21, 22, 23, 24, 25, 26, 27, 28, 29, 30, 31, 101, 102, 103, 104, 105, 106, 107, 108, 109, 110, 111, 112, 113, 114]))
      = [101, 102, 103, 104, 105, 106, 107, 108, 109, 110, 111, 112, 113, 114, 0, 0]"
proof -
  let ?r = "srtp_aes_icm_wolfssl_context_init (wolfcrypt_ctr ((+) \<circ> block_of_bytes)) (Some \<lparr>aes_key = [], aes_iv = 0, aes_used = 0\<rparr>)
         \<lparr>counter = [0, 0, 0, 0, 0, 0, 0, 0, 0, 0, 0, 0, 0, 0, 0, 0], offset = [0, 0, 0, 0, 0, 0, 0, 0, 0, 0, 0, 0, 0, 0, 0, 0], key = [0, 0, 0, 0, 0, 0, 0, 0, 0, 0, 0, 0, 0, 0, 0, 0, 0, 0, 0, 0, 0, 0, 0, 0, 0, 0, 0, 0, 0, 0, 0, 0], key_size = 16, ctx = None\<rparr>
         [16, 17, 18, 19, 20, 21, 22, 23, 24, 25, 26, 27, 28, 29, 30, 31, 101, 102, 103, 104, 105, 106, 107, 108, 109, 110, 111, 112, 113, 114]"
  have s: "fst ?r = srtp_err_status_ok"
    by (simp add: context_init_ctr)
  then have h: "?r = (srtp_err_status_ok, snd ?r)"
    by (metis prod.collapse)
  have l: "key_size (\<lparr>counter = [0, 0, 0, 0, 0, 0, 0, 0, 0, 0, 0, 0, 0, 0, 0, 0], offset = [0, 0, 0, 0, 0, 0, 0, 0, 0, 0, 0, 0, 0, 0, 0, 0], key = [0, 0, 0, 0, 0, 0, 0, 0, 0, 0, 0, 0, 0, 0, 0, 0, 0, 0, 0, 0, 0, 0, 0, 0, 0, 0, 0, 0, 0, 0, 0, 0], key_size = 16, ctx = None\<rparr> :: Aes srtp_aes_icm_ctx_t) + 14
            \<le> length ([16, 17, 18, 19, 20, 21, 22, 23, 24, 25, 26, 27, 28, 29, 30, 31, 101, 102, 103, 104, 105, 106, 107, 108, 109, 110, 111, 112, 113, 114] :: byte list)"
    by simp
  from context_init_offset_is_padded_salt [OF h l] have "offset (snd ?r) = take 14 (drop 16 [16, 17, 18, 19, 20, 21, 22, 23, 24, 25, 26, 27, 28, 29, 30, 31, 101, 102, 103, 104, 105, 106, 107, 108, 109, 110, 111, 112, 113, 114]) @ [0, 0]"
    by simp
  then show ?thesis using s by simp
qed

text \<open>
  C3. \<open>allocate\<close> with a key length other than 30, 38 and 46 returns \<open>bad_param\<close> and
  leaves \<open>*c\<close> as it was, whatever the allocator would have answered. With one of the
  three lengths and both allocations successful it returns ok, and the new cipher carries
  the matching algorithm identifier and descriptor, the key size 16, 24 or 32, the key
  length it was called with, and a null block-cipher context. The descriptor bound for
  each length carries the same identifier.
\<close>

theorem alloc_checks_key_len:
  "(key_len' \<notin> {30, 38, 46} \<longrightarrow>
      srtp_aes_icm_wolfssl_alloc mem_c mem_icm c key_len' tlen = (srtp_err_status_bad_param, c))
   \<and> srtp_aes_icm_wolfssl_alloc (Some m1) (Some m2) c 30 tlen =
       (srtp_err_status_ok,
        Some (m1\<lparr>type := Ref_srtp_aes_icm_128,
                 state := Some (m2\<lparr>key_size := 16, ctx := None\<rparr>),
                 key_len := 30, algorithm := SRTP_AES_ICM_128\<rparr>))
   \<and> srtp_aes_icm_wolfssl_alloc (Some m1) (Some m2) c 38 tlen =
       (srtp_err_status_ok,
        Some (m1\<lparr>type := Ref_srtp_aes_icm_192,
                 state := Some (m2\<lparr>key_size := 24, ctx := None\<rparr>),
                 key_len := 38, algorithm := SRTP_AES_ICM_192\<rparr>))
   \<and> srtp_aes_icm_wolfssl_alloc (Some m1) (Some m2) c 46 tlen =
       (srtp_err_status_ok,
        Some (m1\<lparr>type := Ref_srtp_aes_icm_256,
                 state := Some (m2\<lparr>key_size := 32, ctx := None\<rparr>),
                 key_len := 46, algorithm := SRTP_AES_ICM_256\<rparr>))
   \<and> cipher_id (deref_type W Ref_srtp_aes_icm_128) = SRTP_AES_ICM_128
   \<and> cipher_id (deref_type W Ref_srtp_aes_icm_192) = SRTP_AES_ICM_192
   \<and> cipher_id (deref_type W Ref_srtp_aes_icm_256) = SRTP_AES_ICM_256"
  by (simp add: srtp_aes_icm_wolfssl_alloc_def srtp_len_defs Let_def
      srtp_aes_icm_128_def srtp_aes_icm_192_def srtp_aes_icm_256_def)

theorem alloc_checks_key_len_witness:
  "srtp_aes_icm_wolfssl_alloc
      (Some \<lparr>type = Ref_srtp_aes_icm_128, state = None, key_len = 0, algorithm = SRTP_AES_ICM_128\<rparr>)
      (Some \<lparr>counter = [0, 0, 0, 0, 0, 0, 0, 0, 0, 0, 0, 0, 0, 0, 0, 0], offset = [0, 0, 0, 0, 0, 0, 0, 0, 0, 0, 0, 0, 0, 0, 0, 0], key = [0, 0, 0, 0, 0, 0, 0, 0, 0, 0, 0, 0, 0, 0, 0, 0, 0, 0, 0, 0, 0, 0, 0, 0, 0, 0, 0, 0, 0, 0, 0, 0], key_size = 0, ctx = None\<rparr>)
      (None :: Aes srtp_cipher_t option) 31 0
    = (srtp_err_status_bad_param, None)"
proof -
  have h: "(31 :: nat) \<notin> {30, 38, 46}" by simp
  from alloc_checks_key_len [THEN conjunct1, rule_format, OF h] show ?thesis .
qed

text \<open>
  C4. When the capacity behind \<open>dst_len\<close> is below \<open>src_len\<close>, \<open>encrypt\<close> returns
  \<open>buffer_small\<close>; \<open>dst\<close>, \<open>*dst_len\<close> and the engine are as before the call.
\<close>

theorem encrypt_buffer_small:
  "cap < src_len \<Longrightarrow>
     srtp_aes_icm_wolfssl_encrypt W c src src_len dst (Some cap) =
       (srtp_err_status_buffer_small, c, dst, Some cap)"
  by (simp add: srtp_aes_icm_wolfssl_encrypt_def)

theorem encrypt_buffer_small_witness:
  "srtp_aes_icm_wolfssl_encrypt (wolfcrypt_ctr ((+) \<circ> block_of_bytes))
      \<lparr>counter = [0, 0, 0, 0, 0, 0, 0, 0, 0, 0, 0, 0, 0, 0, 0, 0], offset = [1, 2, 3, 4, 5, 6, 7, 8, 9, 10, 11, 12, 13, 14, 0, 0], key = [0, 0, 0, 0, 0, 0, 0, 0, 0, 0, 0, 0, 0, 0, 0, 0, 0, 0, 0, 0, 0, 0, 0, 0, 0, 0, 0, 0, 0, 0, 0, 0], key_size = 16, ctx = Some \<lparr>aes_key = [], aes_iv = 0, aes_used = 0\<rparr>\<rparr>
      [1, 2, 3] 3 [9, 9, 9] (Some 2)
    = (srtp_err_status_buffer_small,
       \<lparr>counter = [0, 0, 0, 0, 0, 0, 0, 0, 0, 0, 0, 0, 0, 0, 0, 0], offset = [1, 2, 3, 4, 5, 6, 7, 8, 9, 10, 11, 12, 13, 14, 0, 0], key = [0, 0, 0, 0, 0, 0, 0, 0, 0, 0, 0, 0, 0, 0, 0, 0, 0, 0, 0, 0, 0, 0, 0, 0, 0, 0, 0, 0, 0, 0, 0, 0], key_size = 16, ctx = Some \<lparr>aes_key = [], aes_iv = 0, aes_used = 0\<rparr>\<rparr>,
       [9, 9, 9], Some 2)"
proof -
  have h: "(2 :: nat) < 3" by simp
  from encrypt_buffer_small [OF h] show ?thesis .
qed

text \<open>
  C5. Whenever \<open>encrypt\<close> returns ok, on the counter-mode primitive and with buffers as
  long as the lengths passed (\<open>src\<close> holds \<open>src_len\<close> bytes, \<open>dst\<close> holds the capacity),
  the first \<open>src_len\<close> bytes of \<open>dst\<close> are the bytes of \<open>src\<close> combined by exclusive-or
  with the keystream of the context, these are exactly \<open>src_len\<close> bytes, the rest of
  \<open>dst\<close> is unchanged, and \<open>*dst_len\<close> is \<open>src_len\<close>.
\<close>

theorem encrypt_writes_src_len_bytes:
  assumes ok: "srtp_aes_icm_wolfssl_encrypt (wolfcrypt_ctr E) c src src_len dst (Some cap) =
                 (srtp_err_status_ok, c', dst', dl')"
      and src: "src_len \<le> length src"
      and dst: "cap \<le> length dst"
  shows "\<exists>a. ctx c = Some a \<and> src_len \<le> cap \<and> dl' = Some src_len \<and>
             length dst' = length dst \<and>
             take src_len dst' =
               map2 (XOR) (take src_len src)
                 (keystream E (aes_key a) (aes_iv a) (aes_used a) src_len) \<and>
             length (take src_len dst') = src_len \<and>
             drop src_len dst' = drop src_len dst"
proof -
  from ok obtain err a where
    cap: "src_len \<le> cap" and dl: "dl' = Some src_len" and
    call: "counter_mode_transform E (ctx c) dst src src_len = (err, a, dst')" and err: "0 \<le> err"
    by (auto simp: encrypt_ok_iff wolfcrypt_ctr_def)
  from call err obtain h where h: "ctx c = Some h"
    by (cases "ctx c") (auto simp: counter_mode_transform_def)
  let ?ks = "keystream E (aes_key h) (aes_iv h) (aes_used h) src_len"
  have len_ks: "length ?ks = src_len" by (simp add: keystream_def)
  have len_x: "length (map2 (XOR) (take src_len src) ?ks) = src_len"
    using src len_ks by simp
  have d: "dst' = map2 (XOR) (take src_len src) ?ks @ drop src_len dst"
    using call h len_x by (simp add: counter_mode_transform_def memcpy_def)
  have "src_len \<le> length dst" using cap dst by simp
  then show ?thesis using h dl d len_x cap by simp
qed

theorem encrypt_writes_src_len_bytes_witness:
  "srtp_aes_icm_wolfssl_encrypt (wolfcrypt_ctr ((+) \<circ> block_of_bytes))
      \<lparr>counter = [0, 0, 0, 0, 0, 0, 0, 0, 0, 0, 0, 0, 0, 0, 0, 0], offset = [1, 2, 3, 4, 5, 6, 7, 8, 9, 10, 11, 12, 13, 14, 0, 0], key = [16, 17, 18, 19, 20, 21, 22, 23, 24, 25, 26, 27, 28, 29, 30, 31, 0, 0, 0, 0, 0, 0, 0, 0, 0, 0, 0, 0, 0, 0, 0, 0], key_size = 16, ctx = Some \<lparr>aes_key = [16, 17, 18, 19, 20, 21, 22, 23, 24, 25, 26, 27, 28, 29, 30, 31], aes_iv = 0, aes_used = 0\<rparr>\<rparr>
      [1, 2, 3] 3 [9, 9, 9, 9] (Some 4)
    = (srtp_err_status_ok,
       \<lparr>counter = [0, 0, 0, 0, 0, 0, 0, 0, 0, 0, 0, 0, 0, 0, 0, 0], offset = [1, 2, 3, 4, 5, 6, 7, 8, 9, 10, 11, 12, 13, 14, 0, 0], key = [16, 17, 18, 19, 20, 21, 22, 23, 24, 25, 26, 27, 28, 29, 30, 31, 0, 0, 0, 0, 0, 0, 0, 0, 0, 0, 0, 0, 0, 0, 0, 0], key_size = 16, ctx = Some \<lparr>aes_key = [16, 17, 18, 19, 20, 21, 22, 23, 24, 25, 26, 27, 28, 29, 30, 31], aes_iv = 0, aes_used = 3\<rparr>\<rparr>,
       [17, 19, 17, 9], Some 3)
   \<and> take 3 [17, 19, 17, 9 :: byte]
      = map2 (XOR) (take 3 [1, 2, 3])
          (keystream ((+) \<circ> block_of_bytes) [16, 17, 18, 19, 20, 21, 22, 23, 24, 25, 26, 27, 28, 29, 30, 31] 0 0 3)
   \<and> drop 3 [17, 19, 17, 9 :: byte] = drop 3 [9, 9, 9, 9]"
proof -
  have ok: "srtp_aes_icm_wolfssl_encrypt (wolfcrypt_ctr ((+) \<circ> block_of_bytes))
      \<lparr>counter = [0, 0, 0, 0, 0, 0, 0, 0, 0, 0, 0, 0, 0, 0, 0, 0], offset = [1, 2, 3, 4, 5, 6, 7, 8, 9, 10, 11, 12, 13, 14, 0, 0], key = [16, 17, 18, 19, 20, 21, 22, 23, 24, 25, 26, 27, 28, 29, 30, 31, 0, 0, 0, 0, 0, 0, 0, 0, 0, 0, 0, 0, 0, 0, 0, 0], key_size = 16, ctx = Some \<lparr>aes_key = [16, 17, 18, 19, 20, 21, 22, 23, 24, 25, 26, 27, 28, 29, 30, 31], aes_iv = 0, aes_used = 0\<rparr>\<rparr>
      [1, 2, 3] 3 [9, 9, 9, 9] (Some 4)
    = (srtp_err_status_ok,
       \<lparr>counter = [0, 0, 0, 0, 0, 0, 0, 0, 0, 0, 0, 0, 0, 0, 0, 0], offset = [1, 2, 3, 4, 5, 6, 7, 8, 9, 10, 11, 12, 13, 14, 0, 0], key = [16, 17, 18, 19, 20, 21, 22, 23, 24, 25, 26, 27, 28, 29, 30, 31, 0, 0, 0, 0, 0, 0, 0, 0, 0, 0, 0, 0, 0, 0, 0, 0], key_size = 16, ctx = Some \<lparr>aes_key = [16, 17, 18, 19, 20, 21, 22, 23, 24, 25, 26, 27, 28, 29, 30, 31], aes_iv = 0, aes_used = 3\<rparr>\<rparr>,
       [17, 19, 17, 9], Some 3)"
    by code_simp
  have s: "(3 :: nat) \<le> length [1, 2, 3 :: byte]" by simp
  have d: "(4 :: nat) \<le> length [9, 9, 9, 9 :: byte]" by simp
  from encrypt_writes_src_len_bytes [OF ok s d] show ?thesis
    using ok by simp
qed

text \<open>
  C6. Round trip, on the counter-mode primitive. For each of the key lengths 30, 38 and
  46, a key buffer of at least that length, any nonce and any \<open>n\<close> bytes of plaintext:
  allocating an engine, initializing it with the key, setting the nonce and encrypting
  the plaintext succeed; so do the same four steps on a second engine, allocated and
  initialized afresh with the same key and nonce (in whatever direction), encrypting the
  ciphertext of the first; and the \<open>n\<close> bytes that come out are the plaintext. The
  capacities are at least \<open>n\<close> and the destination buffers hold them; the engine memory
  has the 32-byte key array. In each of the three descriptors the decrypt entry is the
  encrypt entry.
\<close>

theorem icm_round_trip:
  assumes kl: "key_len' \<in> {30, 38, 46}"
      and kb: "key_len' \<le> length kbuf"
      and ka: "32 \<le> length (key m_icm)" "32 \<le> length (key m_icm')"
      and sl: "n \<le> length src"
      and cp: "n \<le> cap" "cap \<le> length dst" "n \<le> cap'" "cap' \<le> length dst'"
  shows "(\<exists>c1 s1 s2 s3 s4 ct c1' s1' s2' s3' s4' pt.
            srtp_aes_icm_wolfssl_alloc (Some m_c) (Some m_icm) c0 key_len' tlen
              = (srtp_err_status_ok, Some c1) \<and> state c1 = Some s1 \<and>
            srtp_aes_icm_wolfssl_context_init (wolfcrypt_ctr E) (Some m_aes) s1 kbuf
              = (srtp_err_status_ok, s2) \<and>
            srtp_aes_icm_wolfssl_set_iv (wolfcrypt_ctr E) s2 iv dir = (srtp_err_status_ok, s3) \<and>
            srtp_aes_icm_wolfssl_encrypt (wolfcrypt_ctr E) s3 src n dst (Some cap)
              = (srtp_err_status_ok, s4, ct, Some n) \<and>
            srtp_aes_icm_wolfssl_alloc (Some m_c') (Some m_icm') c0' key_len' tlen'
              = (srtp_err_status_ok, Some c1') \<and> state c1' = Some s1' \<and>
            srtp_aes_icm_wolfssl_context_init (wolfcrypt_ctr E) (Some m_aes') s1' kbuf
              = (srtp_err_status_ok, s2') \<and>
            srtp_aes_icm_wolfssl_set_iv (wolfcrypt_ctr E) s2' iv dir' = (srtp_err_status_ok, s3') \<and>
            srtp_aes_icm_wolfssl_encrypt (wolfcrypt_ctr E) s3' ct n dst' (Some cap')
              = (srtp_err_status_ok, s4', pt, Some n) \<and>
            take n pt = take n src)
       \<and> decrypt (srtp_aes_icm_128 (wolfcrypt_ctr E)) = encrypt (srtp_aes_icm_128 (wolfcrypt_ctr E))
       \<and> decrypt (srtp_aes_icm_192 (wolfcrypt_ctr E)) = encrypt (srtp_aes_icm_192 (wolfcrypt_ctr E))
       \<and> decrypt (srtp_aes_icm_256 (wolfcrypt_ctr E)) = encrypt (srtp_aes_icm_256 (wolfcrypt_ctr E))"
proof -
  let ?W = "wolfcrypt_ctr E"
  let ?ks = "key_len' - 14"
  have ks: "?ks \<in> {16, 24, 32}" using kl by auto
  have ksk: "?ks \<le> length kbuf" using kb by simp
  let ?B = "(memcpy v128_set_to_zero (drop ?ks kbuf) SRTP_SALT_LEN)
              [SRTP_SALT_LEN + 1 := 0, SRTP_SALT_LEN := 0]"
  let ?C = "v128_xor ?B (v128_copy_octet_string iv)"
  let ?A = "\<lparr>aes_key = take ?ks kbuf, aes_iv = block_of_bytes ?C, aes_used = 0\<rparr>"
  let ?KS = "keystream E (take ?ks kbuf) (block_of_bytes ?C) 0 n"
  let ?ct = "memcpy dst (map2 (XOR) (take n src) ?KS) n"
  let ?pt = "memcpy dst' (map2 (XOR) (take n ?ct) ?KS) n"
  have lks: "length ?KS = n" by (simp add: keystream_def)
  \<comment> \<open>one engine, from allocation to the programmed context\<close>
  have run: "\<exists>c1 s1 s2 s3.
      srtp_aes_icm_wolfssl_alloc (Some mc) (Some mi) cz key_len' tl = (srtp_err_status_ok, Some c1) \<and>
      state c1 = Some s1 \<and>
      srtp_aes_icm_wolfssl_context_init ?W (Some ma) s1 kbuf = (srtp_err_status_ok, s2) \<and>
      srtp_aes_icm_wolfssl_set_iv ?W s2 iv d = (srtp_err_status_ok, s3) \<and>
      ctx s3 = Some ?A"
    if mi: "32 \<le> length (key mi)" for mc mi cz tl ma d
  proof -
    let ?s1 = "mi\<lparr>key_size := ?ks, ctx := None\<rparr>"
    obtain c1 where a: "srtp_aes_icm_wolfssl_alloc (Some mc) (Some mi) cz key_len' tl
          = (srtp_err_status_ok, Some c1)" "state c1 = Some ?s1"
      using alloc_valid[OF kl] by blast
    have k1: "key_size ?s1 \<in> {16, 24, 32}" using ks by simp
    have k2: "key_size ?s1 \<le> length (key ?s1)" using ks mi by auto
    note i = context_init_ctr[OF k1 k2, of E ma kbuf, simplified]
    let ?s2 = "?s1\<lparr>counter := ?B, offset := ?B, key := memcpy (key mi) kbuf ?ks,
                 ctx := Some \<lparr>aes_key = [], aes_iv = 0, aes_used = 0\<rparr>\<rparr>"
    have i': "srtp_aes_icm_wolfssl_context_init ?W (Some ma) ?s1 kbuf = (srtp_err_status_ok, ?s2)"
      using i by simp
    have k3: "key_size ?s2 \<in> {16, 24, 32}" using ks by simp
    have k4: "ctx ?s2 = Some \<lparr>aes_key = [], aes_iv = 0, aes_used = 0\<rparr>" by simp
    note v = set_iv_ctr[OF k3 k4, of E iv d]
    have "ctx (snd (srtp_aes_icm_wolfssl_set_iv ?W ?s2 iv d)) = Some ?A"
      using v take_memcpy_key[OF ksk] by simp
    moreover have "fst (srtp_aes_icm_wolfssl_set_iv ?W ?s2 iv d) = srtp_err_status_ok"
      using v by simp
    ultimately show ?thesis using a i' by (metis prod.collapse)
  qed
  obtain c1 s1 s2 s3 where e1:
      "srtp_aes_icm_wolfssl_alloc (Some m_c) (Some m_icm) c0 key_len' tlen
         = (srtp_err_status_ok, Some c1)"
      "state c1 = Some s1"
      "srtp_aes_icm_wolfssl_context_init ?W (Some m_aes) s1 kbuf = (srtp_err_status_ok, s2)"
      "srtp_aes_icm_wolfssl_set_iv ?W s2 iv dir = (srtp_err_status_ok, s3)"
      "ctx s3 = Some ?A"
    using run[OF ka(1)] by blast
  obtain c1' s1' s2' s3' where e2:
      "srtp_aes_icm_wolfssl_alloc (Some m_c') (Some m_icm') c0' key_len' tlen'
         = (srtp_err_status_ok, Some c1')"
      "state c1' = Some s1'"
      "srtp_aes_icm_wolfssl_context_init ?W (Some m_aes') s1' kbuf = (srtp_err_status_ok, s2')"
      "srtp_aes_icm_wolfssl_set_iv ?W s2' iv dir' = (srtp_err_status_ok, s3')"
      "ctx s3' = Some ?A"
    using run[OF ka(2)] by blast
  have enc1: "srtp_aes_icm_wolfssl_encrypt ?W s3 src n dst (Some cap) =
      (srtp_err_status_ok, s3\<lparr>ctx := Some (?A\<lparr>aes_used := n\<rparr>)\<rparr>, ?ct, Some n)"
    using encrypt_ctr[OF cp(1) e1(5), of E src dst] by simp
  have enc2: "srtp_aes_icm_wolfssl_encrypt ?W s3' ?ct n dst' (Some cap') =
      (srtp_err_status_ok, s3'\<lparr>ctx := Some (?A\<lparr>aes_used := n\<rparr>)\<rparr>, ?pt, Some n)"
    using encrypt_ctr[OF cp(3) e2(5), of E ?ct dst'] by simp
  have tct: "take n ?ct = map2 (XOR) (take n src) ?KS"
    by (rule take_memcpy_xor[OF sl lks])
  have lx: "length (map2 (XOR) (take n src) ?KS) = n" using sl lks by simp
  have "take n ?pt = map2 (XOR) (take n ?ct) ?KS"
    using lx lks by (simp add: memcpy_def tct)
  also have "\<dots> = take n src"
    unfolding tct using sl lks by (simp add: xor_twice)
  finally have rt: "take n ?pt = take n src" .
  have tab: "decrypt (srtp_aes_icm_128 ?W) = encrypt (srtp_aes_icm_128 ?W)"
            "decrypt (srtp_aes_icm_192 ?W) = encrypt (srtp_aes_icm_192 ?W)"
            "decrypt (srtp_aes_icm_256 ?W) = encrypt (srtp_aes_icm_256 ?W)"
    by (simp_all add: srtp_aes_icm_128_def srtp_aes_icm_192_def srtp_aes_icm_256_def)
  show ?thesis
    using e1(1-4) e2(1-4) enc1 enc2 rt tab by blast
qed

theorem icm_round_trip_witness:
  "take 3 (fst (snd (snd (srtp_aes_icm_wolfssl_encrypt (wolfcrypt_ctr ((+) \<circ> block_of_bytes)) (snd (srtp_aes_icm_wolfssl_set_iv (wolfcrypt_ctr ((+) \<circ> block_of_bytes)) (snd (srtp_aes_icm_wolfssl_context_init (wolfcrypt_ctr ((+) \<circ> block_of_bytes)) (Some \<lparr>aes_key = [], aes_iv = 0, aes_used = 0\<rparr>) (the (state (the (snd (srtp_aes_icm_wolfssl_alloc (Some \<lparr>type = Ref_srtp_aes_icm_128, state = None, key_len = 0, algorithm = SRTP_AES_ICM_128\<rparr>) (Some \<lparr>counter = [0, 0, 0, 0, 0, 0, 0, 0, 0, 0, 0, 0, 0, 0, 0, 0], offset = [0, 0, 0, 0, 0, 0, 0, 0, 0, 0, 0, 0, 0, 0, 0, 0], key = [0, 0, 0, 0, 0, 0, 0, 0, 0, 0, 0, 0, 0, 0, 0, 0, 0, 0, 0, 0, 0, 0, 0, 0, 0, 0, 0, 0, 0, 0, 0, 0], key_size = 0, ctx = None\<rparr>) None 30 0))))) [16, 17, 18, 19, 20, 21, 22, 23, 24, 25, 26, 27, 28, 29, 30, 31, 101, 102, 103, 104, 105, 106, 107, 108, 109, 110, 111, 112, 113, 114])) [255, 255, 255, 255, 255, 255, 255, 255, 255, 255, 255, 255, 255, 255, 255, 255] srtp_direction_decrypt)) (fst (snd (snd (srtp_aes_icm_wolfssl_encrypt (wolfcrypt_ctr ((+) \<circ> block_of_bytes)) (snd (srtp_aes_icm_wolfssl_set_iv (wolfcrypt_ctr ((+) \<circ> block_of_bytes)) (snd (srtp_aes_icm_wolfssl_context_init (wolfcrypt_ctr ((+) \<circ> block_of_bytes)) (Some \<lparr>aes_key = [], aes_iv = 0, aes_used = 0\<rparr>) (the (state (the (snd (srtp_aes_icm_wolfssl_alloc (Some \<lparr>type = Ref_srtp_aes_icm_128, state = None, key_len = 0, algorithm = SRTP_AES_ICM_128\<rparr>) (Some \<lparr>counter = [0, 0, 0, 0, 0, 0, 0, 0, 0, 0, 0, 0, 0, 0, 0, 0], offset = [0, 0, 0, 0, 0, 0, 0, 0, 0, 0, 0, 0, 0, 0, 0, 0], key = [0, 0, 0, 0, 0, 0, 0, 0, 0, 0, 0, 0, 0, 0, 0, 0, 0, 0, 0, 0, 0, 0, 0, 0, 0, 0, 0, 0, 0, 0, 0, 0], key_size = 0, ctx = None\<rparr>) None 30 0))))) [16, 17, 18, 19, 20, 21, 22, 23, 24, 25, 26, 27, 28, 29, 30, 31, 101, 102, 103, 104, 105, 106, 107, 108, 109, 110, 111, 112, 113, 114])) [255, 255, 255, 255, 255, 255, 255, 255, 255, 255, 255, 255, 255, 255, 255, 255] srtp_direction_encrypt)) [1, 2, 3] 3 [0, 0, 0, 0] (Some 4))))) 3 [0, 0, 0] (Some 3)))))
    = [1, 2, 3]"
proof -
  have kl: "(30 :: nat) \<in> {30, 38, 46}" by simp
  have kb: "(30 :: nat) \<le> length ([16, 17, 18, 19, 20, 21, 22, 23, 24, 25, 26, 27, 28, 29, 30, 31, 101, 102, 103, 104, 105, 106, 107, 108, 109, 110, 111, 112, 113, 114] :: byte list)" by simp
  have ka: "32 \<le> length (key (\<lparr>counter = [0, 0, 0, 0, 0, 0, 0, 0, 0, 0, 0, 0, 0, 0, 0, 0], offset = [0, 0, 0, 0, 0, 0, 0, 0, 0, 0, 0, 0, 0, 0, 0, 0], key = [0, 0, 0, 0, 0, 0, 0, 0, 0, 0, 0, 0, 0, 0, 0, 0, 0, 0, 0, 0, 0, 0, 0, 0, 0, 0, 0, 0, 0, 0, 0, 0], key_size = 0, ctx = None\<rparr> :: Aes srtp_aes_icm_ctx_t))" by simp
  have sl: "(3 :: nat) \<le> length ([1, 2, 3] :: byte list)" by simp
  have c1: "(3 :: nat) \<le> 4" by simp
  have c2: "(4 :: nat) \<le> length ([0, 0, 0, 0] :: byte list)" by simp
  have c3: "(3 :: nat) \<le> 3" by simp
  have c4: "(3 :: nat) \<le> length ([0, 0, 0] :: byte list)" by simp
  from icm_round_trip [OF kl kb ka ka sl c1 c2 c3 c4,
      of "\<lparr>type = Ref_srtp_aes_icm_128, state = None, key_len = 0, algorithm = SRTP_AES_ICM_128\<rparr>" None 0 "(+) \<circ> block_of_bytes" "\<lparr>aes_key = [], aes_iv = 0, aes_used = 0\<rparr>" "[255, 255, 255, 255, 255, 255, 255, 255, 255, 255, 255, 255, 255, 255, 255, 255]"
         srtp_direction_encrypt "\<lparr>type = Ref_srtp_aes_icm_128, state = None, key_len = 0, algorithm = SRTP_AES_ICM_128\<rparr>" None 0 "\<lparr>aes_key = [], aes_iv = 0, aes_used = 0\<rparr>" srtp_direction_decrypt]
  obtain cA sA1 sA2 sA3 sA4 ct cB sB1 sB2 sB3 sB4 pt where
    a: "srtp_aes_icm_wolfssl_alloc (Some \<lparr>type = Ref_srtp_aes_icm_128, state = None, key_len = 0, algorithm = SRTP_AES_ICM_128\<rparr>) (Some \<lparr>counter = [0, 0, 0, 0, 0, 0, 0, 0, 0, 0, 0, 0, 0, 0, 0, 0], offset = [0, 0, 0, 0, 0, 0, 0, 0, 0, 0, 0, 0, 0, 0, 0, 0], key = [0, 0, 0, 0, 0, 0, 0, 0, 0, 0, 0, 0, 0, 0, 0, 0, 0, 0, 0, 0, 0, 0, 0, 0, 0, 0, 0, 0, 0, 0, 0, 0], key_size = 0, ctx = None\<rparr>) None 30 0
          = (srtp_err_status_ok, Some cA)" "state cA = Some sA1"
       "srtp_aes_icm_wolfssl_context_init (wolfcrypt_ctr ((+) \<circ> block_of_bytes)) (Some \<lparr>aes_key = [], aes_iv = 0, aes_used = 0\<rparr>) sA1 [16, 17, 18, 19, 20, 21, 22, 23, 24, 25, 26, 27, 28, 29, 30, 31, 101, 102, 103, 104, 105, 106, 107, 108, 109, 110, 111, 112, 113, 114]
          = (srtp_err_status_ok, sA2)"
       "srtp_aes_icm_wolfssl_set_iv (wolfcrypt_ctr ((+) \<circ> block_of_bytes)) sA2 [255, 255, 255, 255, 255, 255, 255, 255, 255, 255, 255, 255, 255, 255, 255, 255] srtp_direction_encrypt
          = (srtp_err_status_ok, sA3)"
       "srtp_aes_icm_wolfssl_encrypt (wolfcrypt_ctr ((+) \<circ> block_of_bytes)) sA3 [1, 2, 3] 3 [0, 0, 0, 0] (Some 4)
          = (srtp_err_status_ok, sA4, ct, Some 3)" and
    b: "srtp_aes_icm_wolfssl_alloc (Some \<lparr>type = Ref_srtp_aes_icm_128, state = None, key_len = 0, algorithm = SRTP_AES_ICM_128\<rparr>) (Some \<lparr>counter = [0, 0, 0, 0, 0, 0, 0, 0, 0, 0, 0, 0, 0, 0, 0, 0], offset = [0, 0, 0, 0, 0, 0, 0, 0, 0, 0, 0, 0, 0, 0, 0, 0], key = [0, 0, 0, 0, 0, 0, 0, 0, 0, 0, 0, 0, 0, 0, 0, 0, 0, 0, 0, 0, 0, 0, 0, 0, 0, 0, 0, 0, 0, 0, 0, 0], key_size = 0, ctx = None\<rparr>) None 30 0
          = (srtp_err_status_ok, Some cB)" "state cB = Some sB1"
       "srtp_aes_icm_wolfssl_context_init (wolfcrypt_ctr ((+) \<circ> block_of_bytes)) (Some \<lparr>aes_key = [], aes_iv = 0, aes_used = 0\<rparr>) sB1 [16, 17, 18, 19, 20, 21, 22, 23, 24, 25, 26, 27, 28, 29, 30, 31, 101, 102, 103, 104, 105, 106, 107, 108, 109, 110, 111, 112, 113, 114]
          = (srtp_err_status_ok, sB2)"
       "srtp_aes_icm_wolfssl_set_iv (wolfcrypt_ctr ((+) \<circ> block_of_bytes)) sB2 [255, 255, 255, 255, 255, 255, 255, 255, 255, 255, 255, 255, 255, 255, 255, 255] srtp_direction_decrypt
          = (srtp_err_status_ok, sB3)"
       "srtp_aes_icm_wolfssl_encrypt (wolfcrypt_ctr ((+) \<circ> block_of_bytes)) sB3 ct 3 [0, 0, 0] (Some 3)
          = (srtp_err_status_ok, sB4, pt, Some 3)" and
    r: "take 3 pt = take 3 [1, 2, 3]"
    by blast
  from a(1) b(1) have e1: "cB = cA" by simp
  from a(2) b(2) e1 have e2: "sB1 = sA1" by simp
  from a(3) b(3) e2 have e3: "sB2 = sA2" by simp
  show ?thesis
    using r by (simp add: a b(4,5)[unfolded e3])
qed

text \<open>
  C7, as amended. Whenever wolfSSL rejects the key and counter during \<open>set_iv\<close> (its
  result is negative), \<open>set_iv\<close> returns the general failure status
  \<open>srtp_err_status_fail\<close>, which is not the cipher failure status that \<open>encrypt\<close>
  returns; the counter has been written all the same.
\<close>

theorem set_iv_rejected_is_fail:
  assumes "fst (wc_AesSetKey W (ctx c) (key c) (key_size c)
                 (v128_xor (offset c) (v128_copy_octet_string iv))) < 0"
  shows "fst (srtp_aes_icm_wolfssl_set_iv W c iv dir) = srtp_err_status_fail
       \<and> fst (srtp_aes_icm_wolfssl_set_iv W c iv dir) \<noteq> srtp_err_status_cipher_fail
       \<and> counter (snd (srtp_aes_icm_wolfssl_set_iv W c iv dir))
          = v128_xor (offset c) (v128_copy_octet_string iv)"
  using assms
  by (auto simp: srtp_aes_icm_wolfssl_set_iv_def Let_def split: prod.splits)

theorem set_iv_rejected_is_fail_witness:
  "fst (srtp_aes_icm_wolfssl_set_iv (wolfcrypt_ctr ((+) \<circ> block_of_bytes))
         \<lparr>counter = [0, 0, 0, 0, 0, 0, 0, 0, 0, 0, 0, 0, 0, 0, 0, 0], offset = [0, 0, 0, 0, 0, 0, 0, 0, 0, 0, 0, 0, 0, 0, 0, 0], key = [0, 0, 0, 0, 0, 0, 0, 0, 0, 0, 0, 0, 0, 0, 0, 0, 0, 0, 0, 0, 0, 0, 0, 0, 0, 0, 0, 0, 0, 0, 0, 0], key_size = 5, ctx = Some \<lparr>aes_key = [], aes_iv = 0, aes_used = 0\<rparr>\<rparr>
         [255, 255, 255, 255, 255, 255, 255, 255, 255, 255, 255, 255, 255, 255, 255, 255] srtp_direction_encrypt) = srtp_err_status_fail"
proof -
  have h: "fst (wc_AesSetKey (wolfcrypt_ctr ((+) \<circ> block_of_bytes))
                 (ctx \<lparr>counter = [0, 0, 0, 0, 0, 0, 0, 0, 0, 0, 0, 0, 0, 0, 0, 0], offset = [0, 0, 0, 0, 0, 0, 0, 0, 0, 0, 0, 0, 0, 0, 0, 0], key = [0, 0, 0, 0, 0, 0, 0, 0, 0, 0, 0, 0, 0, 0, 0, 0, 0, 0, 0, 0, 0, 0, 0, 0, 0, 0, 0, 0, 0, 0, 0, 0], key_size = 5, ctx = Some \<lparr>aes_key = [], aes_iv = 0, aes_used = 0\<rparr>\<rparr>)
                 (key \<lparr>counter = [0, 0, 0, 0, 0, 0, 0, 0, 0, 0, 0, 0, 0, 0, 0, 0], offset = [0, 0, 0, 0, 0, 0, 0, 0, 0, 0, 0, 0, 0, 0, 0, 0], key = [0, 0, 0, 0, 0, 0, 0, 0, 0, 0, 0, 0, 0, 0, 0, 0, 0, 0, 0, 0, 0, 0, 0, 0, 0, 0, 0, 0, 0, 0, 0, 0], key_size = 5, ctx = Some \<lparr>aes_key = [], aes_iv = 0, aes_used = 0\<rparr>\<rparr>)
                 (key_size \<lparr>counter = [0, 0, 0, 0, 0, 0, 0, 0, 0, 0, 0, 0, 0, 0, 0, 0], offset = [0, 0, 0, 0, 0, 0, 0, 0, 0, 0, 0, 0, 0, 0, 0, 0], key = [0, 0, 0, 0, 0, 0, 0, 0, 0, 0, 0, 0, 0, 0, 0, 0, 0, 0, 0, 0, 0, 0, 0, 0, 0, 0, 0, 0, 0, 0, 0, 0], key_size = 5, ctx = Some \<lparr>aes_key = [], aes_iv = 0, aes_used = 0\<rparr>\<rparr>)
                 (v128_xor (offset \<lparr>counter = [0, 0, 0, 0, 0, 0, 0, 0, 0, 0, 0, 0, 0, 0, 0, 0], offset = [0, 0, 0, 0, 0, 0, 0, 0, 0, 0, 0, 0, 0, 0, 0, 0], key = [0, 0, 0, 0, 0, 0, 0, 0, 0, 0, 0, 0, 0, 0, 0, 0, 0, 0, 0, 0, 0, 0, 0, 0, 0, 0, 0, 0, 0, 0, 0, 0], key_size = 5, ctx = Some \<lparr>aes_key = [], aes_iv = 0, aes_used = 0\<rparr>\<rparr>)
                    (v128_copy_octet_string [255, 255, 255, 255, 255, 255, 255, 255, 255, 255, 255, 255, 255, 255, 255, 255]))) < 0"
    by (simp add: wolfcrypt_ctr_def set_key_and_iv_def)
  from set_iv_rejected_is_fail [OF h] show ?thesis by simp
qed

text \<open>
  The claim C7 as it is written fails: on an engine whose key size wolfSSL rejects, the
  primitive answers with a negative result and \<open>set_iv\<close> does not return the cipher
  failure status.
\<close>

theorem set_iv_cipher_fail_counterexample:
  "fst (wc_AesSetKey (wolfcrypt_ctr ((+) \<circ> block_of_bytes))
         (Some \<lparr>aes_key = [], aes_iv = 0, aes_used = 0\<rparr>) [0, 0, 0, 0, 0, 0, 0, 0, 0, 0, 0, 0, 0, 0, 0, 0, 0, 0, 0, 0, 0, 0, 0, 0, 0, 0, 0, 0, 0, 0, 0, 0] 5
         (v128_xor [0, 0, 0, 0, 0, 0, 0, 0, 0, 0, 0, 0, 0, 0, 0, 0] (v128_copy_octet_string [255, 255, 255, 255, 255, 255, 255, 255, 255, 255, 255, 255, 255, 255, 255, 255]))) < 0
   \<and> fst (srtp_aes_icm_wolfssl_set_iv (wolfcrypt_ctr ((+) \<circ> block_of_bytes))
           \<lparr>counter = [0, 0, 0, 0, 0, 0, 0, 0, 0, 0, 0, 0, 0, 0, 0, 0], offset = [0, 0, 0, 0, 0, 0, 0, 0, 0, 0, 0, 0, 0, 0, 0, 0], key = [0, 0, 0, 0, 0, 0, 0, 0, 0, 0, 0, 0, 0, 0, 0, 0, 0, 0, 0, 0, 0, 0, 0, 0, 0, 0, 0, 0, 0, 0, 0, 0], key_size = 5, ctx = Some \<lparr>aes_key = [], aes_iv = 0, aes_used = 0\<rparr>\<rparr>
           [255, 255, 255, 255, 255, 255, 255, 255, 255, 255, 255, 255, 255, 255, 255, 255] srtp_direction_encrypt) \<noteq> srtp_err_status_cipher_fail"
  by (simp add: srtp_aes_icm_wolfssl_set_iv_def wolfcrypt_ctr_def set_key_and_iv_def)

text \<open>
  C8. \<open>deallocate\<close> returns \<open>bad_param\<close> exactly for the null handle and ok for every
  other one. For a handle with an engine, the engine block is handed to
  \<open>srtp_crypto_free\<close> with counter, offset, key, key size and context pointer all zero,
  just before the cipher block, and after the block-cipher context when there is one;
  without a context nothing else is released.
\<close>

theorem dealloc_zeroizes_engine:
  "srtp_aes_icm_wolfssl_dealloc W None = (srtp_err_status_bad_param, [])
   \<and> fst (srtp_aes_icm_wolfssl_dealloc W (Some c)) = srtp_err_status_ok
   \<and> (fst (srtp_aes_icm_wolfssl_dealloc W h) = srtp_err_status_bad_param \<longleftrightarrow> h = None)
   \<and> (state c = Some s \<longrightarrow>
        snd (srtp_aes_icm_wolfssl_dealloc W (Some c)) =
          (case ctx s of None \<Rightarrow> [] | Some a \<Rightarrow> [Released_Aes (wc_AesFree W a)])
          @ [Released_icm \<lparr>counter = replicate (length (counter s)) 0,
                           offset = replicate (length (offset s)) 0,
                           key = replicate (length (key s)) 0,
                           key_size = 0, ctx = None\<rparr>,
             Released_cipher])"
  by (auto simp: srtp_aes_icm_wolfssl_dealloc_def octet_string_set_to_zero_def
      split: option.splits)

theorem dealloc_zeroizes_engine_witness:
  "srtp_aes_icm_wolfssl_dealloc (wolfcrypt_ctr ((+) \<circ> block_of_bytes))
      (Some \<lparr>type = Ref_srtp_aes_icm_128, state = Some \<lparr>counter = [254, 253, 252, 251, 250, 249, 248, 247, 246, 245, 244, 243, 242, 241, 255, 255], offset = [1, 2, 3, 4, 5, 6, 7, 8, 9, 10, 11, 12, 13, 14, 0, 0], key = [16, 17, 18, 19, 20, 21, 22, 23, 24, 25, 26, 27, 28, 29, 30, 31, 0, 0, 0, 0, 0, 0, 0, 0, 0, 0, 0, 0, 0, 0, 0, 0], key_size = 16, ctx = None\<rparr>, key_len = 30, algorithm = SRTP_AES_ICM_128\<rparr>)
    = (srtp_err_status_ok,
       [Released_icm \<lparr>counter = [0, 0, 0, 0, 0, 0, 0, 0, 0, 0, 0, 0, 0, 0, 0, 0], offset = [0, 0, 0, 0, 0, 0, 0, 0, 0, 0, 0, 0, 0, 0, 0, 0], key = [0, 0, 0, 0, 0, 0, 0, 0, 0, 0, 0, 0, 0, 0, 0, 0, 0, 0, 0, 0, 0, 0, 0, 0, 0, 0, 0, 0, 0, 0, 0, 0], key_size = 0, ctx = None\<rparr>,
        Released_cipher])"
proof -
  let ?c = "\<lparr>type = Ref_srtp_aes_icm_128, state = Some \<lparr>counter = [254, 253, 252, 251, 250, 249, 248, 247, 246, 245, 244, 243, 242, 241, 255, 255], offset = [1, 2, 3, 4, 5, 6, 7, 8, 9, 10, 11, 12, 13, 14, 0, 0], key = [16, 17, 18, 19, 20, 21, 22, 23, 24, 25, 26, 27, 28, 29, 30, 31, 0, 0, 0, 0, 0, 0, 0, 0, 0, 0, 0, 0, 0, 0, 0, 0], key_size = 16, ctx = None\<rparr>, key_len = 30, algorithm = SRTP_AES_ICM_128\<rparr> :: Aes srtp_cipher_t"
  let ?s = "\<lparr>counter = [254, 253, 252, 251, 250, 249, 248, 247, 246, 245, 244, 243, 242, 241, 255, 255], offset = [1, 2, 3, 4, 5, 6, 7, 8, 9, 10, 11, 12, 13, 14, 0, 0], key = [16, 17, 18, 19, 20, 21, 22, 23, 24, 25, 26, 27, 28, 29, 30, 31, 0, 0, 0, 0, 0, 0, 0, 0, 0, 0, 0, 0, 0, 0, 0, 0], key_size = 16, ctx = None\<rparr> :: Aes srtp_aes_icm_ctx_t"
  have h: "state ?c = Some ?s" by simp
  note t = dealloc_zeroizes_engine [of "wolfcrypt_ctr ((+) \<circ> block_of_bytes)" ?c None ?s]
  from t have st: "fst (srtp_aes_icm_wolfssl_dealloc (wolfcrypt_ctr ((+) \<circ> block_of_bytes)) (Some ?c)) = srtp_err_status_ok"
    by blast
  from t h have "snd (srtp_aes_icm_wolfssl_dealloc (wolfcrypt_ctr ((+) \<circ> block_of_bytes)) (Some ?c)) =
          (case ctx ?s of None \<Rightarrow> [] | Some a \<Rightarrow> [Released_Aes (wc_AesFree (wolfcrypt_ctr ((+) \<circ> block_of_bytes)) a)])
          @ [Released_icm \<lparr>counter = replicate (length (counter ?s)) 0,
                           offset = replicate (length (offset ?s)) 0,
                           key = replicate (length (key ?s)) 0,
                           key_size = 0, ctx = None\<rparr>,
             Released_cipher]"
    by blast
  then have "snd (srtp_aes_icm_wolfssl_dealloc (wolfcrypt_ctr ((+) \<circ> block_of_bytes)) (Some ?c)) =
       [Released_icm \<lparr>counter = [0, 0, 0, 0, 0, 0, 0, 0, 0, 0, 0, 0, 0, 0, 0, 0], offset = [0, 0, 0, 0, 0, 0, 0, 0, 0, 0, 0, 0, 0, 0, 0, 0], key = [0, 0, 0, 0, 0, 0, 0, 0, 0, 0, 0, 0, 0, 0, 0, 0, 0, 0, 0, 0, 0, 0, 0, 0, 0, 0, 0, 0, 0, 0, 0, 0], key_size = 0, ctx = None\<rparr>,
        Released_cipher]"
    by (simp add: numeral_eq_Suc)
  with st show ?thesis by (simp add: prod_eq_iff)
qed

text \<open>
  C9. With a null \<open>dst_len\<close> pointer \<open>encrypt\<close> returns \<open>bad_param\<close>; the engine and
  \<open>dst\<close> are as before the call, whatever the lengths and the primitive are.
\<close>

theorem encrypt_null_dst_len:
  "srtp_aes_icm_wolfssl_encrypt W c src src_len dst None
     = (srtp_err_status_bad_param, c, dst, None)"
  by (simp add: srtp_aes_icm_wolfssl_encrypt_def)

text \<open>
  C10, as amended. For an engine whose key size is none of 16, 24 and 32, and whose
  block-cipher context exists already or is created by this call (the allocation and
  \<open>wc_AesInit\<close> succeed), \<open>initialize\<close> on a key buffer holding the bytes it reads
  returns \<open>bad_param\<close>; the offset and the counter are then the zero-padded salt taken
  at position \<open>key_size\<close> of the buffer, and the key bytes and the key size are as before.
\<close>

theorem context_init_bad_key_size_not_atomic:
  assumes ks: "key_size c \<notin> {16, 24, 32}"
      and cr: "ctx c \<noteq> None \<or> (\<exists>m. mem = Some m \<and> 0 \<le> fst (wc_AesInit W m))"
      and len: "key_size c + 14 \<le> length kbuf"
  shows "\<exists>c'. srtp_aes_icm_wolfssl_context_init W mem c kbuf = (srtp_err_status_bad_param, c')
           \<and> offset c' = take 14 (drop (key_size c) kbuf) @ [0, 0]
           \<and> counter c' = take 14 (drop (key_size c) kbuf) @ [0, 0]
           \<and> key c' = key c \<and> key_size c' = key_size c"
proof -
  obtain c' where
    r: "srtp_aes_icm_wolfssl_context_init W mem c kbuf = (srtp_err_status_bad_param, c')"
    using context_init_bad_key_size_status[OF ks cr, of kbuf]
    by (cases "srtp_aes_icm_wolfssl_context_init W mem c kbuf") simp
  show ?thesis
    using r context_init_bad_param_fields[OF r] salt_block[OF len] by simp
qed

theorem context_init_bad_key_size_not_atomic_witness:
  "srtp_aes_icm_wolfssl_context_init (wolfcrypt_ctr ((+) \<circ> block_of_bytes)) None
      \<lparr>counter = [0, 0, 0, 0, 0, 0, 0, 0, 0, 0, 0, 0, 0, 0, 0, 0], offset = [0, 0, 0, 0, 0, 0, 0, 0, 0, 0, 0, 0, 0, 0, 0, 0], key = [0, 0, 0, 0, 0, 0, 0, 0, 0, 0, 0, 0, 0, 0, 0, 0, 0, 0, 0, 0, 0, 0, 0, 0, 0, 0, 0, 0, 0, 0, 0, 0], key_size = 5, ctx = Some \<lparr>aes_key = [], aes_iv = 0, aes_used = 0\<rparr>\<rparr>
      [16, 17, 18, 19, 20, 21, 22, 23, 24, 25, 26, 27, 28, 29, 30, 31, 101, 102, 103, 104, 105, 106, 107, 108, 109, 110, 111, 112, 113, 114]
    = (srtp_err_status_bad_param,
       \<lparr>counter = [21, 22, 23, 24, 25, 26, 27, 28, 29, 30, 31, 101, 102, 103, 0, 0], offset = [21, 22, 23, 24, 25, 26, 27, 28, 29, 30, 31, 101, 102, 103, 0, 0], key = [0, 0, 0, 0, 0, 0, 0, 0, 0, 0, 0, 0, 0, 0, 0, 0, 0, 0, 0, 0, 0, 0, 0, 0, 0, 0, 0, 0, 0, 0, 0, 0], key_size = 5, ctx = Some \<lparr>aes_key = [], aes_iv = 0, aes_used = 0\<rparr>\<rparr>)"
proof -
  let ?c = "\<lparr>counter = [0, 0, 0, 0, 0, 0, 0, 0, 0, 0, 0, 0, 0, 0, 0, 0], offset = [0, 0, 0, 0, 0, 0, 0, 0, 0, 0, 0, 0, 0, 0, 0, 0], key = [0, 0, 0, 0, 0, 0, 0, 0, 0, 0, 0, 0, 0, 0, 0, 0, 0, 0, 0, 0, 0, 0, 0, 0, 0, 0, 0, 0, 0, 0, 0, 0], key_size = 5, ctx = Some \<lparr>aes_key = [], aes_iv = 0, aes_used = 0\<rparr>\<rparr> :: Aes srtp_aes_icm_ctx_t"
  let ?k = "[16, 17, 18, 19, 20, 21, 22, 23, 24, 25, 26, 27, 28, 29, 30, 31, 101, 102, 103, 104, 105, 106, 107, 108, 109, 110, 111, 112, 113, 114] :: byte list"
  have ks: "key_size ?c \<notin> {16, 24, 32}" by simp
  have cr: "ctx ?c \<noteq> None \<or> (\<exists>m. (None :: Aes option) = Some m \<and>
              0 \<le> fst (wc_AesInit (wolfcrypt_ctr ((+) \<circ> block_of_bytes)) m))"
    by simp
  have len: "key_size ?c + 14 \<le> length ?k" by simp
  from context_init_bad_key_size_not_atomic [OF ks cr len]
  obtain c' where
    r: "srtp_aes_icm_wolfssl_context_init (wolfcrypt_ctr ((+) \<circ> block_of_bytes)) None ?c ?k = (srtp_err_status_bad_param, c')"
      and f: "offset c' = take 14 (drop (key_size ?c) ?k) @ [0, 0]"
             "counter c' = take 14 (drop (key_size ?c) ?k) @ [0, 0]"
             "key c' = key ?c" "key_size c' = key_size ?c"
    by blast
  have x: "ctx c' = ctx ?c"
    using r by (auto simp: srtp_aes_icm_wolfssl_context_init_def Let_def split: if_splits)
  have "c' = \<lparr>counter = [21, 22, 23, 24, 25, 26, 27, 28, 29, 30, 31, 101, 102, 103, 0, 0], offset = [21, 22, 23, 24, 25, 26, 27, 28, 29, 30, 31, 101, 102, 103, 0, 0], key = [0, 0, 0, 0, 0, 0, 0, 0, 0, 0, 0, 0, 0, 0, 0, 0, 0, 0, 0, 0, 0, 0, 0, 0, 0, 0, 0, 0, 0, 0, 0, 0], key_size = 5, ctx = Some \<lparr>aes_key = [], aes_iv = 0, aes_used = 0\<rparr>\<rparr>"
    using f x by (intro srtp_aes_icm_ctx_t.equality) simp_all
  with r show ?thesis by simp
qed

text \<open>
  The claim C10 as it is written fails: an engine with key size 5 and no block-cipher
  context, when the allocation of the context fails, gets \<open>alloc_fail\<close> and not
  \<open>bad_param\<close>, and its offset and counter are not overwritten.
\<close>

theorem context_init_bad_key_size_counterexample:
  "key_size \<lparr>counter = [1, 2, 3, 4, 5, 6, 7, 8, 9, 10, 11, 12, 13, 14, 0, 0], offset = [1, 2, 3, 4, 5, 6, 7, 8, 9, 10, 11, 12, 13, 14, 0, 0], key = [0, 0, 0, 0, 0, 0, 0, 0, 0, 0, 0, 0, 0, 0, 0, 0, 0, 0, 0, 0, 0, 0, 0, 0, 0, 0, 0, 0, 0, 0, 0, 0], key_size = 5, ctx = None\<rparr> \<noteq> 16
   \<and> key_size \<lparr>counter = [1, 2, 3, 4, 5, 6, 7, 8, 9, 10, 11, 12, 13, 14, 0, 0], offset = [1, 2, 3, 4, 5, 6, 7, 8, 9, 10, 11, 12, 13, 14, 0, 0], key = [0, 0, 0, 0, 0, 0, 0, 0, 0, 0, 0, 0, 0, 0, 0, 0, 0, 0, 0, 0, 0, 0, 0, 0, 0, 0, 0, 0, 0, 0, 0, 0], key_size = 5, ctx = None\<rparr> \<noteq> 24
   \<and> key_size \<lparr>counter = [1, 2, 3, 4, 5, 6, 7, 8, 9, 10, 11, 12, 13, 14, 0, 0], offset = [1, 2, 3, 4, 5, 6, 7, 8, 9, 10, 11, 12, 13, 14, 0, 0], key = [0, 0, 0, 0, 0, 0, 0, 0, 0, 0, 0, 0, 0, 0, 0, 0, 0, 0, 0, 0, 0, 0, 0, 0, 0, 0, 0, 0, 0, 0, 0, 0], key_size = 5, ctx = None\<rparr> \<noteq> 32
   \<and> srtp_aes_icm_wolfssl_context_init (wolfcrypt_ctr ((+) \<circ> block_of_bytes)) None
        \<lparr>counter = [1, 2, 3, 4, 5, 6, 7, 8, 9, 10, 11, 12, 13, 14, 0, 0], offset = [1, 2, 3, 4, 5, 6, 7, 8, 9, 10, 11, 12, 13, 14, 0, 0], key = [0, 0, 0, 0, 0, 0, 0, 0, 0, 0, 0, 0, 0, 0, 0, 0, 0, 0, 0, 0, 0, 0, 0, 0, 0, 0, 0, 0, 0, 0, 0, 0], key_size = 5, ctx = None\<rparr>
        [16, 17, 18, 19, 20, 21, 22, 23, 24, 25, 26, 27, 28, 29, 30, 31, 101, 102, 103, 104, 105, 106, 107, 108, 109, 110, 111, 112, 113, 114]
      = (srtp_err_status_alloc_fail,
         \<lparr>counter = [1, 2, 3, 4, 5, 6, 7, 8, 9, 10, 11, 12, 13, 14, 0, 0], offset = [1, 2, 3, 4, 5, 6, 7, 8, 9, 10, 11, 12, 13, 14, 0, 0], key = [0, 0, 0, 0, 0, 0, 0, 0, 0, 0, 0, 0, 0, 0, 0, 0, 0, 0, 0, 0, 0, 0, 0, 0, 0, 0, 0, 0, 0, 0, 0, 0], key_size = 5, ctx = None\<rparr>)
   \<and> srtp_err_status_alloc_fail \<noteq> srtp_err_status_bad_param"
  by (simp add: srtp_aes_icm_wolfssl_context_init_def)

end
